theory Spec2Isabelle
  imports Complex_Main "HOL-Library.Multiset"
begin

section \<open>Python values, strings and errors\<close>

text \<open>
  A Python \<open>str\<close> is a sequence of Unicode code points; it is modelled as the list of
  its code points, so that \<open>len\<close>, \<open>strip\<close>, \<open>replace\<close> and \<open>in\<close> count what
  Python counts. Code points used below: 10 is the newline, 34 the double quote,
  96 the backtick, 32 the space. \<open>ascii\<close> writes an ASCII literal as a Python string.
\<close>

type_synonym pystr = "nat list"

definition ascii :: "string \<Rightarrow> pystr" where
  "ascii s = map of_char s"

text \<open>
  The values held by an \<open>argparse.Namespace\<close> or a model config. Floats are only
  passed along and tested for truth, never computed with, so they are reals.
\<close>

datatype pyval = PyNone | PyBool bool | PyInt int | PyFloat real | PyStr pystr

fun truthy :: "pyval \<Rightarrow> bool" where
  "truthy PyNone = False"
| "truthy (PyBool b) = b"
| "truthy (PyInt i) = (i \<noteq> 0)"
| "truthy (PyFloat x) = (x \<noteq> 0)"
| "truthy (PyStr s) = (s \<noteq> [])"

text \<open>
  The exceptions the modelled code raises. An assertion carries the data of its message:
  the attribute name of \<open>model config doesn't have a ... attribute\<close>, or the three
  lengths of \<open>target_lens: {...}\<close>. A KeyError carries the missing key.
\<close>

datatype assertion = NoConfigAttribute string | TargetLens pyval pyval pyval

datatype error =
    AttributeError string
  | AssertionError assertion
  | KeyError pyval
  | IndexError
  | TypeError
  | SystemExit
  | OSError

definition and_then :: "error + 'a \<Rightarrow> ('a \<Rightarrow> error + 'b) \<Rightarrow> error + 'b" where
  "and_then m f = (case m of Inl e \<Rightarrow> Inl e | Inr x \<Rightarrow> f x)"

text \<open>
  An object with dynamic attributes (a namespace, a config): the map from attribute
  names to values. \<open>obj.name\<close> raises AttributeError on a missing name,
  \<open>getattr(obj, name, default)\<close> does not.
\<close>

type_synonym namespace = "string \<rightharpoonup> pyval"

definition getattr :: "namespace \<Rightarrow> string \<Rightarrow> error + pyval" where
  "getattr obj name = (case obj name of None \<Rightarrow> Inl (AttributeError name) | Some v \<Rightarrow> Inr v)"

definition getattr_default :: "namespace \<Rightarrow> string \<Rightarrow> pyval \<Rightarrow> pyval" where
  "getattr_default obj name d = (case obj name of None \<Rightarrow> d | Some v \<Rightarrow> v)"

definition hasattr :: "namespace \<Rightarrow> string \<Rightarrow> bool" where
  "hasattr obj name = (obj name \<noteq> None)"

definition setattr :: "namespace \<Rightarrow> string \<Rightarrow> pyval \<Rightarrow> namespace" where
  "setattr obj name v = obj(name \<mapsto> v)"

text \<open>
  An attribute of \<open>self\<close> that is a slot of a record: reading a slot that no statement
  has assigned yet raises AttributeError.
\<close>

definition read_slot :: "string \<Rightarrow> 'a option \<Rightarrow> error + 'a" where
  "read_slot name slot = (case slot of None \<Rightarrow> Inl (AttributeError name) | Some v \<Rightarrow> Inr v)"

section \<open>String operations of the Python runtime\<close>

text \<open>The code points for which \<open>str.isspace\<close> holds, which \<open>str.strip()\<close> removes.\<close>

definition isspace :: "nat \<Rightarrow> bool" where
  "isspace c = (c \<in> {9, 10, 11, 12, 13, 28, 29, 30, 31, 32, 133, 160, 5760,
                       8232, 8233, 8239, 8287, 12288} \<or> (8192 \<le> c \<and> c \<le> 8202))"

definition strip :: "pystr \<Rightarrow> pystr" where
  "strip s = rev (dropWhile isspace (rev (dropWhile isspace s)))"

definition startswith :: "'a list \<Rightarrow> 'a list \<Rightarrow> bool" where
  "startswith s pre = (take (length pre) s = pre)"

text \<open>
  \<open>s.replace(old, new)\<close>: the occurrences of \<open>old\<close> are found from the left and do not
  overlap; an empty \<open>old\<close> matches before every character and at the end.
\<close>

fun replace :: "'a list \<Rightarrow> 'a list \<Rightarrow> 'a list \<Rightarrow> 'a list" where
  "replace [] old new = (if old = [] then new else [])"
| "replace (c # cs) old new =
     (if old = [] then new @ concat (map (\<lambda>x. x # new) (c # cs))
      else if startswith (c # cs) old then new @ replace (drop (length old) (c # cs)) old new
      else c # replace cs old new)"

text \<open>\<open>sub in s\<close> for strings: \<open>sub\<close> occurs in \<open>s\<close> as a contiguous substring.\<close>

fun str_contains :: "'a list \<Rightarrow> 'a list \<Rightarrow> bool" where
  "str_contains [] sub = (sub = [])"
| "str_contains (c # cs) sub = (startswith (c # cs) sub \<or> str_contains cs sub)"


section \<open>data.py: CustomDataset\<close>

subsection \<open>Tensors and the tokenizer\<close>

text \<open>
  A tensor is its shape and its elements in row-major order. \<open>squeeze()\<close> drops every
  dimension of size 1; \<open>numel\<close> is the number of elements the shape stands for.
\<close>

record tensor =
  shape :: "nat list"
  elems :: "int list"

definition numel :: "tensor \<Rightarrow> nat" where
  "numel t = prod_list (shape t)"

definition squeeze :: "tensor \<Rightarrow> tensor" where
  "squeeze t = t\<lparr>shape := filter (\<lambda>d. d \<noteq> 1) (shape t)\<rparr>"

record batch_encoding =
  input_ids :: tensor
  attention_mask :: tensor

text \<open>
  The tokenizer is an object of the transformers library. What the dataset uses of it is
  \<open>batch_encode_plus(texts, max_length=n, padding="max_length", truncation=True,
  return_tensors="pt")\<close>: a function of the texts and of \<open>n\<close>.
\<close>

type_synonym tokenizer = "pystr list \<Rightarrow> nat \<Rightarrow> batch_encoding"

text \<open>
  The tokenizer honours the request: each tensor it returns has one row per text and
  \<open>max_length\<close> columns, whatever the length of the texts.
\<close>

definition pads_and_truncates :: "tokenizer \<Rightarrow> bool" where
  "pads_and_truncates tok =
     (\<forall>texts n.
        shape (input_ids (tok texts n)) = [length texts, n] \<and>
        length (elems (input_ids (tok texts n))) = length texts * n \<and>
        shape (attention_mask (tok texts n)) = [length texts, n] \<and>
        length (elems (attention_mask (tok texts n))) = length texts * n)"

text \<open>
  A tokenizer of this kind, for concrete runs: one token per code point, truncated to
  \<open>n\<close> and padded with zeros.
\<close>

definition pad_row :: "nat \<Rightarrow> int list \<Rightarrow> int list" where
  "pad_row n xs = take n xs @ replicate (n - length xs) 0"

definition char_tokenizer :: tokenizer where
  "char_tokenizer texts n =
     \<lparr>input_ids = \<lparr>shape = [length texts, n],
                    elems = concat (map (\<lambda>t. pad_row n (map int t)) texts)\<rparr>,
      attention_mask = \<lparr>shape = [length texts, n],
                         elems = concat (map (\<lambda>t. pad_row n (map (\<lambda>_. 1) t)) texts)\<rparr>\<rparr>"

subsection \<open>The dataset object\<close>

text \<open>
  The \<open>dataset\<close> argument: three columns read as \<open>dataset.text\<close>,
  \<open>dataset.headline\<close> and \<open>dataset.title\<close>. \<open>select\<close> keeps the rows of the given
  indices and raises IndexError on an index out of range.
\<close>

record dataset =
  ds_text :: "pystr list"
  ds_headline :: "pystr list"
  ds_title :: "pystr list"

definition py_range :: "int \<Rightarrow> int \<Rightarrow> int list" where
  "py_range lo hi = map (\<lambda>k. lo + int k) [0..<nat (hi - lo)]"

definition select_column :: "'a list \<Rightarrow> int list \<Rightarrow> error + 'a list" where
  "select_column col idxs =
     (if \<forall>i \<in> set idxs. 0 \<le> i \<and> nat i < length col
      then Inr (map (\<lambda>i. col ! nat i) idxs) else Inl IndexError)"

definition select :: "dataset \<Rightarrow> int list \<Rightarrow> error + dataset" where
  "select d idxs =
     and_then (select_column (ds_text d) idxs) (\<lambda>t.
     and_then (select_column (ds_headline d) idxs) (\<lambda>h.
     and_then (select_column (ds_title d) idxs) (\<lambda>ti.
       Inr \<lparr>ds_text = t, ds_headline = h, ds_title = ti\<rparr>)))"

text \<open>
  The attributes of a CustomDataset instance, one slot each; a slot is None until a
  statement assigns it. \<open>__init__\<close> does not call the constructor of the base class, so
  a new instance starts with no attribute of its own.
\<close>

record CustomDataset =
  cd_text :: "pystr list option"
  cd_headline :: "pystr list option"
  cd_title :: "pystr list option"
  cd_dataset :: "dataset option"
  cd_input_length :: "nat option"
  cd_tokenizer :: "tokenizer option"
  cd_output_length :: "nat option"
  cd_print_text :: "bool option"

definition new_instance :: CustomDataset where
  "new_instance =
     \<lparr>cd_text = None, cd_headline = None, cd_title = None, cd_dataset = None,
      cd_input_length = None, cd_tokenizer = None, cd_output_length = None,
      cd_print_text = None\<rparr>"

text \<open>
  \<open>num_samples\<close> is None or an integer; \<open>if num_samples:\<close> holds for an integer other
  than 0. In \<open>self.dataset.select(list(range(0, num_samples)))\<close> Python reads
  \<open>self.dataset\<close> before it evaluates the argument.
\<close>

definition CustomDataset_init ::
  "dataset \<Rightarrow> tokenizer \<Rightarrow> nat \<Rightarrow> nat \<Rightarrow> bool \<Rightarrow> int option \<Rightarrow> error + CustomDataset" where
  "CustomDataset_init dataset tokenizer input_length output_length print_text num_samples =
     (let self = new_instance;
          self = self\<lparr>cd_text := Some (ds_text dataset)\<rparr>;
          self = self\<lparr>cd_headline := Some (ds_headline dataset)\<rparr>;
          self = self\<lparr>cd_title := Some (ds_title dataset)\<rparr>
      in and_then
           (case num_samples of
              None \<Rightarrow> Inr self
            | Some n \<Rightarrow>
                if n \<noteq> 0
                then and_then (read_slot ''dataset'' (cd_dataset self)) (\<lambda>d.
                     and_then (select d (py_range 0 n)) (\<lambda>d'.
                       Inr (self\<lparr>cd_dataset := Some d'\<rparr>)))
                else Inr self)
           (\<lambda>self.
              let self = self\<lparr>cd_input_length := Some input_length\<rparr>;
                  self = self\<lparr>cd_tokenizer := Some tokenizer\<rparr>;
                  self = self\<lparr>cd_output_length := Some output_length\<rparr>;
                  self = self\<lparr>cd_print_text := Some print_text\<rparr>
              in Inr self))"

definition len :: "CustomDataset \<Rightarrow> error + nat" where
  "len self = and_then (read_slot ''text'' (cd_text self)) (\<lambda>t. Inr (length t))"

definition clean_text :: "pystr \<Rightarrow> pystr" where
  "clean_text text =
     (let text = strip text;
          text = replace text [10] [];
          text = replace text [96, 96] [];
          text = replace text [34] []
      in text)"

text \<open>
  \<open>convert_to_features\<close> returns the lines it printed together with the two encodings.
\<close>

definition convert_to_features ::
  "CustomDataset \<Rightarrow> pystr \<Rightarrow> pystr \<Rightarrow> error + (pystr list \<times> batch_encoding \<times> batch_encoding)" where
  "convert_to_features self text headline =
     and_then (read_slot ''print_text'' (cd_print_text self)) (\<lambda>print_text.
       let out = (if print_text then [ascii ''Input Text:  '' @ clean_text text] else []);
           input' = clean_text text;
           target' = clean_text headline
       in and_then (read_slot ''tokenizer'' (cd_tokenizer self)) (\<lambda>tokenizer.
          and_then (read_slot ''input_length'' (cd_input_length self)) (\<lambda>input_length.
            let source = tokenizer [input'] input_length
            in and_then (read_slot ''tokenizer'' (cd_tokenizer self)) (\<lambda>tokenizer'.
               and_then (read_slot ''output_length'' (cd_output_length self)) (\<lambda>output_length.
                 let targets = tokenizer' [target'] output_length
                 in Inr (out, source, targets))))))"

definition index_column :: "'a list \<Rightarrow> nat \<Rightarrow> error + 'a" where
  "index_column col i = (if i < length col then Inr (col ! i) else Inl IndexError)"

text \<open>The dictionary \<open>__getitem__\<close> returns, one field per key.\<close>

record example =
  ex_input_ids :: tensor
  ex_attention_mask :: tensor
  ex_labels :: tensor
  ex_target_mask :: tensor

definition getitem :: "CustomDataset \<Rightarrow> nat \<Rightarrow> error + (pystr list \<times> example)" where
  "getitem self index =
     and_then (read_slot ''text'' (cd_text self)) (\<lambda>text.
     and_then (index_column text index) (\<lambda>t.
     and_then (read_slot ''headline'' (cd_headline self)) (\<lambda>headline.
     and_then (index_column headline index) (\<lambda>h.
     and_then (convert_to_features self t h) (\<lambda>(out, source, targets).
       let input_ids' = squeeze (input_ids source);
           target_ids = squeeze (input_ids targets);
           src_mask = squeeze (attention_mask source);
           target_mask = squeeze (attention_mask targets)
       in Inr (out, \<lparr>ex_input_ids = input_ids', ex_attention_mask = src_mask,
                     ex_labels = target_ids, ex_target_mask = target_mask\<rparr>))))))"

section \<open>lightning_base.py: BaseTransformer\<close>

subsection \<open>The scheduler registry\<close>

text \<open>
  The schedule factories of \<open>transformers.optimization\<close> are named, not computed: a
  schedule is the record of the factory and of the arguments it was called with.
\<close>

datatype schedule_func =
    get_linear_schedule_with_warmup
  | get_cosine_schedule_with_warmup
  | get_cosine_with_hard_restarts_schedule_with_warmup
  | get_polynomial_decay_schedule_with_warmup

definition arg_to_scheduler :: "(pystr \<times> schedule_func) list" where
  "arg_to_scheduler =
     [(ascii ''linear'', get_linear_schedule_with_warmup),
      (ascii ''cosine'', get_cosine_schedule_with_warmup),
      (ascii ''cosine_w_restarts'', get_cosine_with_hard_restarts_schedule_with_warmup),
      (ascii ''polynomial'', get_polynomial_decay_schedule_with_warmup)]"

text \<open>\<open>arg_to_scheduler[key]\<close>: a key that is not in the dictionary raises KeyError.\<close>

definition arg_to_scheduler_item :: "pyval \<Rightarrow> error + schedule_func" where
  "arg_to_scheduler_item key =
     (case key of
        PyStr k \<Rightarrow> (case map_of arg_to_scheduler k of
                      None \<Rightarrow> Inl (KeyError key) | Some f \<Rightarrow> Inr f)
      | _ \<Rightarrow> Inl (KeyError key))"

subsection \<open>Optimizers, schedules and the module\<close>

text \<open>
  The model is used through \<open>named_parameters()\<close> only: the list of its parameters with
  their names. An optimizer is the record of its constructor call: Adafactor with
  \<open>lr\<close>, \<open>scale_parameter\<close> and \<open>relative_step\<close>, AdamW with \<open>lr\<close> and \<open>eps\<close>.
\<close>

record 'p pretrained_model =
  named_parameters :: "(pystr \<times> 'p) list"

record 'p param_group =
  params :: "'p list"
  weight_decay :: pyval

datatype 'p optimizer =
    Adafactor "'p param_group list" pyval bool bool
  | AdamW "'p param_group list" pyval pyval

record 'p lr_schedule =
  schedule_func :: schedule_func
  schedule_optimizer :: "'p optimizer"
  num_warmup_steps :: pyval
  num_training_steps :: int

record 'p scheduler_config =
  scheduler :: "'p lr_schedule"
  interval :: string
  frequency :: int

record target_lens =
  train :: pyval
  val :: pyval
  test :: pyval

text \<open>
  The attributes \<open>__init__\<close> assigns, and \<open>opt\<close>, which only
  \<open>configure_optimizers\<close> assigns: a slot, None until then.
\<close>

record 'p BaseTransformer =
  bt_hparams :: namespace
  bt_step_count :: int
  bt_output_dir :: pystr
  bt_model_name_or_path :: pyval
  bt_config :: namespace
  bt_tokenizer :: tokenizer
  bt_model :: "'p pretrained_model"
  bt_target_lens :: target_lens
  bt_opt :: "'p optimizer option"

text \<open>
  The loaders of the pretrained-model hub, which \<open>__init__\<close> calls for a component that
  was not passed in. They are given, with the arguments of each call:
  the name, \<open>num_labels\<close> when it is not None, \<open>cache_dir\<close> and the
  \<open>config_kwargs\<close>; the name and \<open>cache_dir\<close>; the name, \<open>from_tf\<close>, the config and
  \<open>cache_dir\<close>.
\<close>

record 'p hub =
  AutoConfig_from_pretrained ::
    "pyval \<Rightarrow> pyval option \<Rightarrow> pyval \<Rightarrow> (string \<times> pyval) list \<Rightarrow> error + namespace"
  AutoTokenizer_from_pretrained :: "pyval \<Rightarrow> pyval \<Rightarrow> error + tokenizer"
  AutoModelForSeq2SeqLM_from_pretrained ::
    "pyval \<Rightarrow> bool \<Rightarrow> namespace \<Rightarrow> pyval \<Rightarrow> error + 'p pretrained_model"

text \<open>\<open>Path(x)\<close> takes a string; \<open>Path(None)\<close> raises TypeError.\<close>

definition Path :: "pyval \<Rightarrow> error + pystr" where
  "Path x = (case x of PyStr s \<Rightarrow> Inr s | _ \<Rightarrow> Inl TypeError)"

text \<open>\<open>sub in x\<close> where \<open>x\<close> should be a string.\<close>

definition py_in :: "pystr \<Rightarrow> pyval \<Rightarrow> error + bool" where
  "py_in sub x = (case x of PyStr s \<Rightarrow> Inr (str_contains s sub) | _ \<Rightarrow> Inl TypeError)"

text \<open>
  \<open>a <= b\<close>: numbers (booleans included) compare by value, strings by code points,
  anything else raises TypeError.
\<close>

fun number :: "pyval \<Rightarrow> real option" where
  "number (PyBool b) = Some (if b then 1 else 0)"
| "number (PyInt i) = Some (real_of_int i)"
| "number (PyFloat x) = Some x"
| "number _ = None"

definition py_le :: "pyval \<Rightarrow> pyval \<Rightarrow> error + bool" where
  "py_le a b =
     (case (number a, number b) of
        (Some x, Some y) \<Rightarrow> Inr (x \<le> y)
      | _ \<Rightarrow> (case (a, b) of
                (PyStr s, PyStr t) \<Rightarrow> Inr (lexordp_eq s t)
              | _ \<Rightarrow> Inl TypeError))"

subsection \<open>Construction\<close>

definition extra_model_params :: "string list" where
  "extra_model_params =
     [''encoder_layerdrop'', ''decoder_layerdrop'', ''dropout'', ''attention_dropout'']"

text \<open>
  The loop over \<open>extra_model_params\<close>: \<open>if getattr(self.hparams, p, None):\<close> tests the
  truth of the value, the assertion tests \<open>hasattr(self.config, p)\<close>.
\<close>

fun apply_extra_model_params :: "namespace \<Rightarrow> namespace \<Rightarrow> string list \<Rightarrow> error + namespace" where
  "apply_extra_model_params hparams config [] = Inr config"
| "apply_extra_model_params hparams config (p # ps) =
     (if truthy (getattr_default hparams p PyNone)
      then (if hasattr config p
            then and_then (getattr hparams p) (\<lambda>v.
                   apply_extra_model_params hparams (setattr config p v) ps)
            else Inl (AssertionError (NoConfigAttribute p)))
      else apply_extra_model_params hparams config ps)"

text \<open>
  Lines 63 to 113 of \<open>__init__\<close>: the hyperparameters are saved, the output directory
  and the three components are resolved, the overrides are applied to the config.
\<close>

definition resolve_components ::
  "'p hub \<Rightarrow> namespace \<Rightarrow> namespace option \<Rightarrow> tokenizer option \<Rightarrow> pyval option \<Rightarrow>
   'p pretrained_model option \<Rightarrow> (string \<times> pyval) list \<Rightarrow>
   error + (pystr \<times> pyval \<times> namespace \<times> tokenizer \<times> 'p pretrained_model)" where
  "resolve_components hub hparams config tokenizer num_labels model config_kwargs =
     and_then (getattr hparams ''output_dir'') (\<lambda>od.
     and_then (Path od) (\<lambda>output_dir.
     and_then (getattr hparams ''cache_dir'') (\<lambda>cd.
       let cache_dir = (if truthy cd then cd else PyNone)
       in and_then (getattr hparams ''model_name_or_path'') (\<lambda>model_name_or_path.
          and_then
            (case config of
               None \<Rightarrow>
                 and_then (getattr hparams ''config_name'') (\<lambda>cn.
                 and_then (if truthy cn then Inr cn else getattr hparams ''model_name_or_path'')
                   (\<lambda>name. AutoConfig_from_pretrained hub name num_labels cache_dir config_kwargs))
             | Some c \<Rightarrow> Inr c) (\<lambda>config.
          and_then (apply_extra_model_params hparams config extra_model_params) (\<lambda>config.
          and_then
            (case tokenizer of
               None \<Rightarrow>
                 and_then (getattr hparams ''tokenizer_name'') (\<lambda>tn.
                 and_then (if truthy tn then Inr tn else getattr hparams ''model_name_or_path'')
                   (\<lambda>name. AutoTokenizer_from_pretrained hub name cache_dir))
             | Some t \<Rightarrow> Inr t) (\<lambda>tokenizer.
          and_then
            (case model of
               None \<Rightarrow>
                 and_then (getattr hparams ''model_name_or_path'') (\<lambda>name.
                 and_then (getattr hparams ''model_name_or_path'') (\<lambda>name'.
                 and_then (py_in (ascii ''.ckpt'') name') (\<lambda>from_tf.
                   AutoModelForSeq2SeqLM_from_pretrained hub name from_tf config cache_dir)))
             | Some m \<Rightarrow> Inr m) (\<lambda>model.
            Inr (output_dir, model_name_or_path, config, tokenizer, model)))))))))"

text \<open>Lines 114 to 124: the target lengths are read and the two assertions checked.\<close>

definition check_target_lens :: "namespace \<Rightarrow> error + target_lens" where
  "check_target_lens hparams =
     and_then (getattr hparams ''max_target_length'') (\<lambda>tr.
     and_then (getattr hparams ''val_max_target_length'') (\<lambda>va.
     and_then (getattr hparams ''test_max_target_length'') (\<lambda>te.
       let target_lens = \<lparr>train = tr, val = va, test = te\<rparr>
       in and_then (py_le (train target_lens) (val target_lens)) (\<lambda>ok.
            if \<not> ok then Inl (AssertionError (TargetLens tr va te))
            else and_then (py_le (train target_lens) (test target_lens)) (\<lambda>ok'.
                   if \<not> ok' then Inl (AssertionError (TargetLens tr va te))
                   else Inr target_lens)))))"

definition BaseTransformer_init ::
  "'p hub \<Rightarrow> namespace \<Rightarrow> namespace option \<Rightarrow> tokenizer option \<Rightarrow> pyval option \<Rightarrow>
   'p pretrained_model option \<Rightarrow> (string \<times> pyval) list \<Rightarrow> error + 'p BaseTransformer" where
  "BaseTransformer_init hub hparams config tokenizer num_labels model config_kwargs =
     and_then (resolve_components hub hparams config tokenizer num_labels model config_kwargs)
       (\<lambda>(output_dir, model_name_or_path, config, tokenizer, model).
     and_then (check_target_lens hparams) (\<lambda>target_lens.
       Inr \<lparr>bt_hparams = hparams, bt_step_count = 0, bt_output_dir = output_dir,
            bt_model_name_or_path = model_name_or_path, bt_config = config,
            bt_tokenizer = tokenizer, bt_model = model, bt_target_lens = target_lens,
            bt_opt = None\<rparr>))"

subsection \<open>Optimizer and schedule\<close>

text \<open>
  \<open>total_steps\<close> is called on \<open>self\<close> and is not a method of this class: the class that
  extends BaseTransformer defines it. It is a parameter here, and so are
  \<open>validation_step\<close> and \<open>validation_end\<close>.
\<close>

definition get_lr_scheduler ::
  "('p BaseTransformer \<Rightarrow> error + int) \<Rightarrow> 'p BaseTransformer \<Rightarrow> error + 'p scheduler_config" where
  "get_lr_scheduler total_steps self =
     and_then (getattr (bt_hparams self) ''lr_scheduler'') (\<lambda>kind.
     and_then (arg_to_scheduler_item kind) (\<lambda>get_schedule_func.
     and_then (read_slot ''opt'' (bt_opt self)) (\<lambda>opt.
     and_then (getattr (bt_hparams self) ''warmup_steps'') (\<lambda>warmup_steps.
     and_then (total_steps self) (\<lambda>n.
       let scheduler = \<lparr>schedule_func = get_schedule_func, schedule_optimizer = opt,
                         num_warmup_steps = warmup_steps, num_training_steps = n\<rparr>;
           scheduler = \<lparr>scheduler = scheduler, interval = ''step'', frequency = 1\<rparr>
       in Inr scheduler)))))"

definition no_decay :: "pystr list" where
  "no_decay = [ascii ''bias'', ascii ''LayerNorm.weight'']"

text \<open>\<open>any(nd in n for nd in no_decay)\<close>\<close>

definition any_no_decay :: "pystr \<Rightarrow> bool" where
  "any_no_decay n = list_ex (\<lambda>nd. str_contains n nd) no_decay"

definition optimizer_grouped_parameters ::
  "'p pretrained_model \<Rightarrow> pyval \<Rightarrow> 'p param_group list" where
  "optimizer_grouped_parameters model wd =
     [\<lparr>params = map snd (filter (\<lambda>(n, p). \<not> any_no_decay n) (named_parameters model)),
       weight_decay = wd\<rparr>,
      \<lparr>params = map snd (filter (\<lambda>(n, p). any_no_decay n) (named_parameters model)),
       weight_decay = PyFloat 0\<rparr>]"

text \<open>
  \<open>configure_optimizers\<close> returns the two lists and stores the optimizer in
  \<open>self.opt\<close>: the module is returned with them.
\<close>

definition configure_optimizers ::
  "('p BaseTransformer \<Rightarrow> error + int) \<Rightarrow> 'p BaseTransformer \<Rightarrow>
   error + (('p optimizer list \<times> 'p scheduler_config list) \<times> 'p BaseTransformer)" where
  "configure_optimizers total_steps self =
     (let model = bt_model self
      in and_then (getattr (bt_hparams self) ''weight_decay'') (\<lambda>wd.
         let groups = optimizer_grouped_parameters model wd
         in and_then (getattr (bt_hparams self) ''adafactor'') (\<lambda>adafactor.
            and_then
              (if truthy adafactor
               then and_then (getattr (bt_hparams self) ''learning_rate'') (\<lambda>lr.
                      Inr (Adafactor groups lr False False))
               else and_then (getattr (bt_hparams self) ''learning_rate'') (\<lambda>lr.
                    and_then (getattr (bt_hparams self) ''adam_epsilon'') (\<lambda>eps.
                      Inr (AdamW groups lr eps)))) (\<lambda>optimizer.
              let self = self\<lparr>bt_opt := Some optimizer\<rparr>
              in and_then (get_lr_scheduler total_steps self) (\<lambda>scheduler.
                   Inr (([optimizer], [scheduler]), self))))))"

text \<open>The arguments an optimizer was constructed with.\<close>

fun optimizer_groups :: "'p optimizer \<Rightarrow> 'p param_group list" where
  "optimizer_groups (Adafactor g lr sp rs) = g"
| "optimizer_groups (AdamW g lr eps) = g"

fun optimizer_lr :: "'p optimizer \<Rightarrow> pyval" where
  "optimizer_lr (Adafactor g lr sp rs) = lr"
| "optimizer_lr (AdamW g lr eps) = lr"

fun optimizer_eps :: "'p optimizer \<Rightarrow> pyval option" where
  "optimizer_eps (Adafactor g lr sp rs) = None"
| "optimizer_eps (AdamW g lr eps) = Some eps"

fun is_Adafactor :: "'p optimizer \<Rightarrow> bool" where
  "is_Adafactor (Adafactor g lr sp rs) = True"
| "is_Adafactor (AdamW g lr eps) = False"

subsection \<open>Steps\<close>

definition test_step ::
  "('p BaseTransformer \<Rightarrow> 'b \<Rightarrow> int \<Rightarrow> error + ('r \<times> 'p BaseTransformer)) \<Rightarrow>
   'p BaseTransformer \<Rightarrow> 'b \<Rightarrow> int \<Rightarrow> error + ('r \<times> 'p BaseTransformer)" where
  "test_step validation_step self batch batch_nb = validation_step self batch batch_nb"

definition test_epoch_end ::
  "('p BaseTransformer \<Rightarrow> 'o \<Rightarrow> error + ('r \<times> 'p BaseTransformer)) \<Rightarrow>
   'p BaseTransformer \<Rightarrow> 'o \<Rightarrow> error + ('r \<times> 'p BaseTransformer)" where
  "test_epoch_end validation_end self outputs = validation_end self outputs"

section \<open>lightning_base.py: the argument parsers and generic_train\<close>

subsection \<open>argparse\<close>

text \<open>
  A parser is the list of its arguments, in the order of the \<open>add_argument\<close> calls.
  Of an argument the model keeps the flag, the attribute it is stored under
  (\<open>dest\<close>, or the flag without its two dashes), the default (None when there is
  none, False for \<open>store_true\<close>) and whether it is required.
\<close>

record argument =
  arg_flag :: string
  arg_dest :: string
  arg_default :: pyval
  arg_required :: bool

type_synonym parser = "argument list"

definition add_argument :: "parser \<Rightarrow> string \<Rightarrow> string option \<Rightarrow> pyval \<Rightarrow> bool \<Rightarrow> parser" where
  "add_argument parser flag dest dflt required =
     parser @ [\<lparr>arg_flag = flag,
                arg_dest = (case dest of None \<Rightarrow> drop 2 flag | Some d \<Rightarrow> d),
                arg_default = dflt, arg_required = required\<rparr>]"

text \<open>
  \<open>parse_args\<close> on a command line, given as the list of the flags it holds with their
  converted values. An unknown flag or a missing required argument ends the process;
  otherwise every argument of the parser becomes an attribute of the namespace, with the
  value of the command line (the last one, when a flag is repeated) or the default.
\<close>

definition parse_args :: "parser \<Rightarrow> (string \<times> pyval) list \<Rightarrow> error + namespace" where
  "parse_args parser given =
     (if list_ex (\<lambda>(f, v). f \<notin> set (map arg_flag parser)) given then Inl SystemExit
      else if list_ex (\<lambda>a. arg_required a \<and> map_of (rev given) (arg_flag a) = None) parser
        then Inl SystemExit
      else Inr (foldl (\<lambda>ns a. ns(arg_dest a \<mapsto>
                         (case map_of (rev given) (arg_flag a) of
                            None \<Rightarrow> arg_default a | Some v \<Rightarrow> v)))
                  Map.empty parser))"

definition add_model_specific_args :: "parser \<Rightarrow> pystr \<Rightarrow> parser" where
  "add_model_specific_args parser root_dir =
     (let parser = add_argument parser ''--model_name_or_path'' None PyNone True;
          parser = add_argument parser ''--config_name'' None (PyStr []) False;
          parser = add_argument parser ''--tokenizer_name'' None PyNone False;
          parser = add_argument parser ''--cache_dir'' None (PyStr []) False;
          parser = add_argument parser ''--encoder_layerdrop'' None PyNone False;
          parser = add_argument parser ''--decoder_layerdrop'' None PyNone False;
          parser = add_argument parser ''--dropout'' None PyNone False;
          parser = add_argument parser ''--attention_dropout'' None PyNone False;
          parser = add_argument parser ''--learning_rate'' None (PyFloat (5 / 100000)) False;
          parser = add_argument parser ''--lr_scheduler'' None (PyStr (ascii ''linear'')) False;
          parser = add_argument parser ''--weight_decay'' None (PyFloat (1 / 100)) False;
          parser = add_argument parser ''--adam_epsilon'' None (PyFloat (1 / 100000000)) False;
          parser = add_argument parser ''--warmup_steps'' None (PyInt 0) False;
          parser = add_argument parser ''--num_workers'' None (PyInt 4) False;
          parser = add_argument parser ''--num_train_epochs'' (Some ''max_epochs'') (PyInt 10) False;
          parser = add_argument parser ''--train_batch_size'' None (PyInt 32) False;
          parser = add_argument parser ''--eval_batch_size'' None (PyInt 32) False;
          parser = add_argument parser ''--adafactor'' None (PyBool True) False;
          parser = add_argument parser ''--save_path'' None (PyStr []) False;
          parser = add_argument parser ''--hf_checkpoint'' None (PyBool False) False;
          parser = add_argument parser ''--load_checkpoint'' None (PyBool False) False;
          parser = add_argument parser ''--data_path'' None (PyStr (ascii ''../data'')) False;
          parser = add_argument parser ''--deepspeed_stage_3'' None (PyBool False) False;
          parser = add_argument parser ''--eval_beams'' None (PyInt 5) False
      in parser)"

definition add_generic_args :: "parser \<Rightarrow> pystr \<Rightarrow> parser" where
  "add_generic_args parser root_dir =
     (let parser = add_argument parser ''--output_dir'' None PyNone False;
          parser = add_argument parser ''--fp16'' None (PyBool False) False;
          parser = add_argument parser ''--fp16_opt_level'' None (PyStr (ascii ''O2'')) False;
          parser = add_argument parser ''--n_tpu_cores'' (Some ''tpu_cores'') PyNone False;
          parser = add_argument parser ''--max_grad_norm'' (Some ''gradient_clip_val'')
                     (PyFloat 1) False;
          parser = add_argument parser ''--do_train'' None (PyBool False) False;
          parser = add_argument parser ''--do_predict'' None (PyBool False) False;
          parser = add_argument parser ''--gradient_accumulation_steps''
                     (Some ''accumulate_grad_batches'') (PyInt 1) False;
          parser = add_argument parser ''--seed'' None (PyInt 42) False;
          parser = add_argument parser ''--data_dir'' None PyNone False;
          parser = add_argument parser ''--logger_name'' None PyNone False;
          parser = add_argument parser ''--wb_name'' None (PyStr []) False;
          parser = add_argument parser ''--wb_project'' None (PyStr []) False;
          parser = add_argument parser ''--wb_entity'' None (PyStr (ascii ''jordanclive'')) False;
          parser = add_argument parser ''--id'' None (PyStr []) False;
          parser = add_argument parser ''--resume_from_checkpoint'' None PyNone False;
          parser = add_argument parser ''--monitor'' None (PyStr (ascii ''val_loss'')) False;
          parser = add_argument parser ''--full_test'' None (PyBool False) False;
          parser = add_argument parser ''--save_path_for_test'' None (PyStr []) False;
          parser = add_argument parser ''--val_check_interval'' None (PyFloat (15 / 100)) False;
          parser = add_argument parser ''--num_sanity_val_steps'' None (PyInt (- 1)) False;
          parser = add_argument parser ''--debug_mode'' None (PyBool False) False
      in parser)"

subsection \<open>generic_train\<close>

text \<open>
  What the function meets outside the program: whether \<open>odir.mkdir(exist_ok=True)\<close>
  raises, and the identifier \<open>wandb.util.generate_id()\<close> returns.
\<close>

record env =
  mkdir_error :: "error option"
  generated_id :: pystr

definition mkdir :: "env \<Rightarrow> pystr \<Rightarrow> error + unit" where
  "mkdir e odir = (case mkdir_error e of None \<Rightarrow> Inr () | Some err \<Rightarrow> Inl err)"

record ModelCheckpoint =
  dirpath :: pystr
  monitor :: pyval
  mode :: pystr
  save_top_k :: int

datatype train_param = Val pyval | DeepSpeedPlugin int bool bool bool

datatype logger = Logger pyval | WandbLogger pyval pyval pyval pyval

text \<open>
  The trainer is the record of the call \<open>Trainer.from_argparse_args(args, callbacks=...,
  logger=..., **train_params)\<close> and of the module it was fitted on; the training loop
  itself belongs to the framework.
\<close>

record 'p Trainer =
  trainer_args :: namespace
  callbacks :: "ModelCheckpoint list"
  trainer_logger :: logger
  train_params :: "string \<rightharpoonup> train_param"
  fit :: "'p BaseTransformer"

text \<open>
  Of the parameters of \<open>generic_train\<close> the body reads \<open>model\<close>, \<open>args\<close>,
  \<open>logger\<close> and \<open>extra_train_kwargs\<close>; the remaining ones are never read
  (\<open>checkpoint_callback\<close> is assigned before any use).
\<close>

definition generic_train ::
  "env \<Rightarrow> 'p BaseTransformer \<Rightarrow> namespace \<Rightarrow> pyval \<Rightarrow> (string \<rightharpoonup> pyval) \<Rightarrow>
   error + 'p Trainer" where
  "generic_train e model args logger extra_train_kwargs =
     and_then (getattr args ''seed'') (\<lambda>seed.
     and_then (getattr (bt_hparams model) ''output_dir'') (\<lambda>od.
     and_then (Path od) (\<lambda>odir.
     and_then (mkdir e odir) (\<lambda>_.
     and_then (getattr args ''val_metric'') (\<lambda>val_metric.
       let checkpoint_callback =
             \<lparr>dirpath = odir, monitor = val_metric, mode = ascii ''max'', save_top_k = 1\<rparr>;
           tp = Map.empty
       in and_then (getattr (bt_hparams model) ''accumulate_grad_batches'') (\<lambda>agb.
       let tp = tp(''accumulate_grad_batches'' \<mapsto> Val agb);
           tp = tp(''precision'' \<mapsto> Val (PyInt 16));
           tp = tp(''strategy'' \<mapsto> Val (PyStr (ascii ''deepspeed_stage_2'')))
       in and_then (getattr (bt_hparams model) ''deepspeed_stage_3'') (\<lambda>ds3.
       let tp = (if truthy ds3
                 then (let tp = tp(''strategy'' \<mapsto> DeepSpeedPlugin 3 True True True);
                           tp = tp(''strategy'' \<mapsto> Val (PyStr (ascii ''ddp_sharded'')))
                       in tp)
                 else tp);
           tp = tp(''profiler'' \<mapsto>
                  Val (case extra_train_kwargs ''profiler'' of None \<Rightarrow> PyNone | Some v \<Rightarrow> v))
       in and_then (getattr args ''gradient_clip_val'') (\<lambda>gcv.
       let tp = tp(''gradient_clip_val'' \<mapsto> Val gcv)
       in and_then (getattr args ''val_check_interval'') (\<lambda>vci.
       let tp = tp(''val_check_interval'' \<mapsto> Val vci)
       in and_then (getattr args ''num_sanity_val_steps'') (\<lambda>nsv.
       let tp = tp(''num_sanity_val_steps'' \<mapsto> Val nsv)
       in and_then (getattr args ''gpus'') (\<lambda>gpus.
       let tp = tp(''gpus'' \<mapsto> Val gpus)
       in and_then (getattr (bt_hparams model) ''local'') (\<lambda>local.
       let tp = (if truthy local
                 then (let tp = tp(''precision'' \<mapsto> Val (PyInt 32));
                           tp = tp(''num_sanity_val_steps'' \<mapsto> Val (PyInt 10));
                           tp = tp(''gpus'' \<mapsto> Val (PyInt 0));
                           tp = tp(''strategy'' \<mapsto> Val PyNone)
                       in tp)
                 else tp)
       in and_then (getattr args ''resume_from_checkpoint'') (\<lambda>rfc.
       let tp = (if rfc \<noteq> PyNone then tp(''resume_from_checkpoint'' \<mapsto> Val rfc) else tp)
       in and_then (getattr args ''debug_mode'') (\<lambda>dm.
       let tp = (if truthy dm
                 then (let tp = tp(''limit_train_batches'' \<mapsto> Val (PyInt 20));
                           tp = tp(''limit_val_batches'' \<mapsto> Val (PyInt 2))
                       in tp)
                 else tp)
       in and_then (getattr args ''logger_name'') (\<lambda>ln.
          and_then
            (if ln = PyStr (ascii ''wandb'')
             then and_then (getattr args ''id'') (\<lambda>i.
                  let id' = (if i \<noteq> PyNone then i else PyStr (generated_id e))
                  in and_then (getattr args ''wb_name'') (\<lambda>name.
                     and_then (getattr args ''wb_project'') (\<lambda>project.
                     and_then (getattr args ''wb_entity'') (\<lambda>entity.
                       Inr (WandbLogger id' name project entity)))))
             else Inr (Logger logger)) (\<lambda>lg.
            Inr \<lparr>trainer_args = args, callbacks = [checkpoint_callback],
                 trainer_logger = lg, train_params = tp, fit = model\<rparr>))))))))))))))))"

subsection \<open>Concrete objects\<close>

text \<open>
  A dataset of two rows. The hyperparameters of a run with the given target lengths,
  the defaults of the parser and no override. The three components passed to the
  constructor: a config with no attribute, the character tokenizer and a model of two
  parameters. \<open>example_module\<close> is the module the constructor builds from them.
\<close>

definition example_dataset :: dataset where
  "example_dataset =
     \<lparr>ds_text = [ascii ''  How to boil an egg  '', ascii ''b''],
      ds_headline = [ascii ''Boil it'', ascii ''c''],
      ds_title = [ascii ''Egg'', ascii ''d'']\<rparr>"

definition example_hparams :: "int \<Rightarrow> int \<Rightarrow> int \<Rightarrow> namespace" where
  "example_hparams tr va te =
     [''output_dir'' \<mapsto> PyStr (ascii ''out''),
      ''cache_dir'' \<mapsto> PyStr [],
      ''model_name_or_path'' \<mapsto> PyStr (ascii ''google/flan-t5-small''),
      ''max_target_length'' \<mapsto> PyInt tr,
      ''val_max_target_length'' \<mapsto> PyInt va,
      ''test_max_target_length'' \<mapsto> PyInt te,
      ''learning_rate'' \<mapsto> PyFloat (5 / 100000),
      ''lr_scheduler'' \<mapsto> PyStr (ascii ''cosine''),
      ''weight_decay'' \<mapsto> PyFloat (1 / 100),
      ''adam_epsilon'' \<mapsto> PyFloat (1 / 100000000),
      ''warmup_steps'' \<mapsto> PyInt 0,
      ''adafactor'' \<mapsto> PyBool True]"

definition example_model :: "nat pretrained_model" where
  "example_model =
     \<lparr>named_parameters = [(ascii ''encoder.weight'', 0), (ascii ''encoder.bias'', 1)]\<rparr>"

definition no_hub :: "nat hub" where
  "no_hub =
     \<lparr>AutoConfig_from_pretrained = (\<lambda>name num_labels cache_dir kwargs. Inl OSError),
      AutoTokenizer_from_pretrained = (\<lambda>name cache_dir. Inl OSError),
      AutoModelForSeq2SeqLM_from_pretrained = (\<lambda>name from_tf config cache_dir. Inl OSError)\<rparr>"

definition example_init :: "namespace \<Rightarrow> namespace \<Rightarrow> error + nat BaseTransformer" where
  "example_init hparams config =
     BaseTransformer_init no_hub hparams (Some config) (Some char_tokenizer) None
       (Some example_model) []"

definition example_module :: "namespace \<Rightarrow> target_lens \<Rightarrow> nat BaseTransformer" where
  "example_module hparams lens =
     \<lparr>bt_hparams = hparams, bt_step_count = 0, bt_output_dir = ascii ''out'',
      bt_model_name_or_path = PyStr (ascii ''google/flan-t5-small''),
      bt_config = Map.empty, bt_tokenizer = char_tokenizer, bt_model = example_model,
      bt_target_lens = lens, bt_opt = None\<rparr>"

definition example_lens :: target_lens where
  "example_lens = \<lparr>train = PyInt 50, val = PyInt 60, test = PyInt 100\<rparr>"

definition example_total_steps :: "nat BaseTransformer \<Rightarrow> error + int" where
  "example_total_steps self = Inr 1000"

text \<open>
  A command line that names the model and the output directory, the parser the two
  functions of this file build, and a world in which the directory can be created.
\<close>

definition example_parser :: parser where
  "example_parser = add_model_specific_args (add_generic_args [] []) []"

definition example_command_line :: "(string \<times> pyval) list" where
  "example_command_line =
     [(''--model_name_or_path'', PyStr (ascii ''google/flan-t5-small'')),
      (''--output_dir'', PyStr (ascii ''out''))]"

definition example_env :: env where
  "example_env = \<lparr>mkdir_error = None, generated_id = ascii ''1a2b3c4d''\<rparr>"

section \<open>Properties of clean_text\<close>



lemma replace_pair_step:
  "c \<noteq> a \<Longrightarrow> replace (c # cs) [a, a] [] = c # replace cs [a, a] []"
  by (simp add: startswith_def)













section \<open>Properties of CustomDataset\<close>

lemma numel_squeeze: "numel (squeeze t) = numel t"
proof -
  have "prod_list (filter (\<lambda>d. d \<noteq> 1) xs) = prod_list xs" for xs :: "nat list"
    by (induction xs) auto
  then show ?thesis by (simp add: numel_def squeeze_def)
qed

lemma elems_squeeze: "elems (squeeze t) = elems t"
  by (simp add: squeeze_def)

lemma length_pad_row: "length (pad_row n xs) = n"
  by (simp add: pad_row_def)

lemma length_concat_rows:
  "(\<And>t. length (f t) = n) \<Longrightarrow> length (concat (map f texts)) = length texts * n"
  by (induction texts) auto

lemma char_tokenizer_pads: "pads_and_truncates char_tokenizer"
  unfolding pads_and_truncates_def char_tokenizer_def
  by (simp add: length_concat_rows length_pad_row)

lemma CustomDataset_init_Inr:
  assumes "CustomDataset_init ds tok il ol pt ns = Inr self"
  shows "cd_text self = Some (ds_text ds)" and "cd_headline self = Some (ds_headline ds)"
    and "cd_input_length self = Some il" and "cd_output_length self = Some ol"
    and "cd_tokenizer self = Some tok" and "cd_print_text self = Some pt"
    and "ns = None \<or> ns = Some 0"
  using assms
  by (auto simp: CustomDataset_init_def and_then_def read_slot_def new_instance_def Let_def
      split: option.splits if_splits)

text \<open>
  C2. For a dataset object that the constructor built, a tokenizer that pads to the
  requested length and truncates beyond it, and an index inside both columns,
  \<open>__getitem__\<close> returns an item whose \<open>input_ids\<close> and \<open>attention_mask\<close> have
  \<open>input_length\<close> elements and whose \<open>labels\<close> and \<open>target_mask\<close> have
  \<open>output_length\<close> elements, whatever the texts are.
\<close>

theorem getitem_lengths:
  assumes init: "CustomDataset_init ds tok il ol pt ns = Inr self"
    and tok: "pads_and_truncates tok"
    and i1: "index < length (ds_text ds)"
    and i2: "index < length (ds_headline ds)"
  shows "\<exists>out item. getitem self index = Inr (out, item) \<and>
           numel (ex_input_ids item) = il \<and> length (elems (ex_input_ids item)) = il \<and>
           numel (ex_attention_mask item) = il \<and> length (elems (ex_attention_mask item)) = il \<and>
           numel (ex_labels item) = ol \<and> length (elems (ex_labels item)) = ol \<and>
           numel (ex_target_mask item) = ol \<and> length (elems (ex_target_mask item)) = ol"
proof -
  note s = CustomDataset_init_Inr [OF init]
  have sh: "numel (input_ids (tok [x] n)) = n" "numel (attention_mask (tok [x] n)) = n"
    "length (elems (input_ids (tok [x] n))) = n"
    "length (elems (attention_mask (tok [x] n))) = n" for x n
    using tok by (simp_all add: pads_and_truncates_def numel_def)
  show ?thesis
    using i1 i2
    by (simp add: getitem_def convert_to_features_def s(1-6) read_slot_def and_then_def
        index_column_def Let_def numel_squeeze elems_squeeze sh)
qed

theorem getitem_lengths_witness:
  "pads_and_truncates char_tokenizer \<and>
   (\<exists>self out item.
      CustomDataset_init example_dataset char_tokenizer 4 1 False None = Inr self \<and>
      getitem self 0 = Inr (out, item) \<and>
      numel (ex_input_ids item) = 4 \<and> numel (ex_attention_mask item) = 4 \<and>
      numel (ex_labels item) = 1 \<and> numel (ex_target_mask item) = 1 \<and>
      shape (ex_input_ids item) = [4] \<and> shape (ex_labels item) = [])"
proof -
  have p: "pads_and_truncates char_tokenizer" by (rule char_tokenizer_pads)
  have "\<exists>self. CustomDataset_init example_dataset char_tokenizer 4 1 False None = Inr self"
    by (simp add: CustomDataset_init_def and_then_def Let_def)
  then obtain self where
    i: "CustomDataset_init example_dataset char_tokenizer 4 1 False None = Inr self" ..
  have l: "0 < length (ds_text example_dataset)" "0 < length (ds_headline example_dataset)"
    by (simp_all add: example_dataset_def)
  from getitem_lengths [OF i p l] obtain out item where
    g: "getitem self 0 = Inr (out, item)"
    "numel (ex_input_ids item) = 4" "numel (ex_attention_mask item) = 4"
    "numel (ex_labels item) = 1" "numel (ex_target_mask item) = 1" by blast
  note s = CustomDataset_init_Inr [OF i]
  have "shape (ex_input_ids item) = [4] \<and> shape (ex_labels item) = []"
    using g(1)
    by (auto simp: getitem_def convert_to_features_def s(1-6) read_slot_def and_then_def
        index_column_def Let_def example_dataset_def char_tokenizer_def squeeze_def)
  with p i g show ?thesis by blast
qed


text \<open>
  C9. With a \<open>num_samples\<close> that is neither None nor 0, the constructor reads
  \<open>self.dataset\<close>, which no statement before it assigns: construction ends in an
  AttributeError and never selects the first \<open>num_samples\<close> examples, whether the
  count exceeds the rows of the dataset or not.
\<close>

theorem init_num_samples_fails:
  "n \<noteq> 0 \<Longrightarrow>
   CustomDataset_init ds tok il ol pt (Some n) = Inl (AttributeError ''dataset'')"
  by (simp add: CustomDataset_init_def new_instance_def read_slot_def and_then_def Let_def)

theorem init_num_samples_fails_witness:
  "(3::int) \<noteq> 0 \<and> length (ds_text example_dataset) = 2 \<and>
   CustomDataset_init example_dataset char_tokenizer 4 1 False (Some 3)
     = Inl (AttributeError ''dataset'') \<and>
   CustomDataset_init example_dataset char_tokenizer 4 1 False (Some 1)
     = Inl (AttributeError ''dataset'')"
  using init_num_samples_fails [of 3 example_dataset char_tokenizer 4 1 False]
    init_num_samples_fails [of 1 example_dataset char_tokenizer 4 1 False]
  by (simp add: example_dataset_def)

section \<open>Properties of BaseTransformer\<close>

text \<open>
  C8. \<open>test_step\<close> returns what \<open>validation_step\<close> returns on the same module,
  batch and batch index: the same result, the same module state, the same error.
\<close>

theorem test_step_is_validation_step:
  "test_step validation_step self batch batch_nb = validation_step self batch batch_nb"
  by (simp add: test_step_def)


lemma configure_optimizers_Inr:
  assumes "configure_optimizers total_steps self = Inr ((opts, scheds), self')"
  shows "\<exists>wd af lr opt sch.
      bt_hparams self ''weight_decay'' = Some wd \<and>
      bt_hparams self ''adafactor'' = Some af \<and>
      bt_hparams self ''learning_rate'' = Some lr \<and>
      (if truthy af
       then opt = Adafactor (optimizer_grouped_parameters (bt_model self) wd) lr False False
       else \<exists>eps. bt_hparams self ''adam_epsilon'' = Some eps \<and>
              opt = AdamW (optimizer_grouped_parameters (bt_model self) wd) lr eps) \<and>
      opts = [opt] \<and> scheds = [sch] \<and> self' = self\<lparr>bt_opt := Some opt\<rparr> \<and>
      get_lr_scheduler total_steps self' = Inr sch"
  using assms
  by (auto simp: configure_optimizers_def and_then_def getattr_def Let_def
      split: option.splits sum.splits if_splits)




lemma example_configure:
  "configure_optimizers example_total_steps
     (example_module (example_hparams 50 60 100) lens) =
   Inr (([Adafactor (optimizer_grouped_parameters example_model (PyFloat (1 / 100)))
            (PyFloat (5 / 100000)) False False],
         [\<lparr>scheduler = \<lparr>schedule_func = get_cosine_schedule_with_warmup,
             schedule_optimizer = Adafactor (optimizer_grouped_parameters example_model
                (PyFloat (1 / 100))) (PyFloat (5 / 100000)) False False,
             num_warmup_steps = PyInt 0, num_training_steps = 1000\<rparr>,
           interval = ''step'', frequency = 1\<rparr>]),
        (example_module (example_hparams 50 60 100) lens)
          \<lparr>bt_opt := Some (Adafactor (optimizer_grouped_parameters example_model
                (PyFloat (1 / 100))) (PyFloat (5 / 100000)) False False)\<rparr>)"
  by (simp add: configure_optimizers_def get_lr_scheduler_def example_module_def
      example_hparams_def example_total_steps_def and_then_def getattr_def read_slot_def
      arg_to_scheduler_item_def arg_to_scheduler_def ascii_def Let_def)



lemma registry:
  "map_of arg_to_scheduler (ascii ''linear'') = Some get_linear_schedule_with_warmup"
  "map_of arg_to_scheduler (ascii ''cosine'') = Some get_cosine_schedule_with_warmup"
  "map_of arg_to_scheduler (ascii ''cosine_w_restarts'')
     = Some get_cosine_with_hard_restarts_schedule_with_warmup"
  "map_of arg_to_scheduler (ascii ''polynomial'')
     = Some get_polynomial_decay_schedule_with_warmup"
  by (simp_all add: arg_to_scheduler_def ascii_def)

text \<open>
  C6. For a scheduler kind among linear, cosine, cosine_w_restarts and polynomial,
  \<open>get_lr_scheduler\<close> takes the factory the registry holds for that key, calls it with
  the stored optimizer, the configured warmup steps and the total training steps, and
  returns the schedule with interval \<open>step\<close> and frequency 1.
\<close>

theorem get_lr_scheduler_selects:
  assumes kind: "bt_hparams self ''lr_scheduler'' = Some (PyStr kind)"
    and reg: "kind \<in> {ascii ''linear'', ascii ''cosine'', ascii ''cosine_w_restarts'',
                      ascii ''polynomial''}"
    and opt: "bt_opt self = Some opt"
    and warm: "bt_hparams self ''warmup_steps'' = Some w"
    and tot: "total_steps self = Inr n"
  shows "\<exists>f. map_of arg_to_scheduler kind = Some f \<and>
           get_lr_scheduler total_steps self =
             Inr \<lparr>scheduler = \<lparr>schedule_func = f, schedule_optimizer = opt,
                                 num_warmup_steps = w, num_training_steps = n\<rparr>,
                  interval = ''step'', frequency = 1\<rparr> \<and>
           (kind = ascii ''linear'' \<longrightarrow> f = get_linear_schedule_with_warmup) \<and>
           (kind = ascii ''cosine'' \<longrightarrow> f = get_cosine_schedule_with_warmup) \<and>
           (kind = ascii ''cosine_w_restarts'' \<longrightarrow>
              f = get_cosine_with_hard_restarts_schedule_with_warmup) \<and>
           (kind = ascii ''polynomial'' \<longrightarrow> f = get_polynomial_decay_schedule_with_warmup)"
proof -
  from reg obtain f where f: "map_of arg_to_scheduler kind = Some f"
    using registry by auto
  have g: "get_lr_scheduler total_steps self =
             Inr \<lparr>scheduler = \<lparr>schedule_func = f, schedule_optimizer = opt,
                                 num_warmup_steps = w, num_training_steps = n\<rparr>,
                  interval = ''step'', frequency = 1\<rparr>"
    by (simp add: get_lr_scheduler_def getattr_def and_then_def read_slot_def
        arg_to_scheduler_item_def kind opt warm tot f)
  from f g show ?thesis using registry by auto
qed

theorem get_lr_scheduler_selects_witness:
  "get_lr_scheduler example_total_steps
     ((example_module (example_hparams 50 60 100)
         example_lens)
        \<lparr>bt_opt := Some (AdamW [] (PyFloat (5 / 100000)) (PyFloat (1 / 100000000)))\<rparr>) =
   Inr \<lparr>scheduler = \<lparr>schedule_func = get_cosine_schedule_with_warmup,
          schedule_optimizer = AdamW [] (PyFloat (5 / 100000)) (PyFloat (1 / 100000000)),
          num_warmup_steps = PyInt 0, num_training_steps = 1000\<rparr>,
        interval = ''step'', frequency = 1\<rparr>"
proof -
  let ?opt = "AdamW [] (PyFloat (5 / 100000)) (PyFloat (1 / 100000000)) :: nat optimizer"
  let ?m = "(example_module (example_hparams 50 60 100)
         example_lens)\<lparr>bt_opt := Some ?opt\<rparr>"
  have a: "bt_hparams ?m ''lr_scheduler'' = Some (PyStr (ascii ''cosine''))"
    by (simp add: example_module_def example_hparams_def)
  have b: "ascii ''cosine'' \<in> {ascii ''linear'', ascii ''cosine'', ascii ''cosine_w_restarts'',
                      ascii ''polynomial''}" by simp
  have c: "bt_opt ?m = Some ?opt" by simp
  have d: "bt_hparams ?m ''warmup_steps'' = Some (PyInt 0)"
    by (simp add: example_module_def example_hparams_def)
  have e: "example_total_steps ?m = Inr 1000" by (simp add: example_total_steps_def)
  from get_lr_scheduler_selects [where total_steps = example_total_steps, OF a b c d e]
  show ?thesis by (auto simp: registry)
qed

text \<open>
  C7 (as amended). \<open>configure_optimizers\<close> builds one optimizer: Adafactor when the
  \<open>adafactor\<close> flag is true, AdamW otherwise, in both cases with the configured
  learning rate. AdamW is given the configured epsilon; Adafactor is given
  \<open>scale_parameter=False\<close> and \<open>relative_step=False\<close> and no epsilon.
\<close>

theorem configure_optimizers_kinds:
  assumes "configure_optimizers total_steps self = Inr ((opts, scheds), self')"
  shows "\<exists>opt lr af.
      opts = [opt] \<and> bt_opt self' = Some opt \<and>
      bt_hparams self ''learning_rate'' = Some lr \<and>
      bt_hparams self ''adafactor'' = Some af \<and>
      is_Adafactor opt = truthy af \<and>
      optimizer_lr opt = lr \<and>
      (truthy af \<longrightarrow> optimizer_eps opt = None \<and>
         (\<exists>g. opt = Adafactor g lr False False)) \<and>
      (\<not> truthy af \<longrightarrow>
         (\<exists>g eps. bt_hparams self ''adam_epsilon'' = Some eps \<and> opt = AdamW g lr eps \<and>
                  optimizer_eps opt = Some eps))"
  using configure_optimizers_Inr [OF assms]
  by (auto split: if_splits)

theorem configure_optimizers_kinds_witness:
  "map is_Adafactor (fst (fst (projr (configure_optimizers example_total_steps
      (example_module (example_hparams 50 60 100) example_lens))))) = [True] \<and>
   \<not> isl (configure_optimizers example_total_steps
      (example_module ((example_hparams 50 60 100)(''adafactor'' \<mapsto> PyBool False)) example_lens)) \<and>
   fst (fst (projr (configure_optimizers example_total_steps
      (example_module ((example_hparams 50 60 100)(''adafactor'' \<mapsto> PyBool False)) example_lens))))
     = [AdamW (optimizer_grouped_parameters example_model (PyFloat (1 / 100)))
          (PyFloat (5 / 100000)) (PyFloat (1 / 100000000))]"
proof -
  let ?hp = "(example_hparams 50 60 100)(''adafactor'' \<mapsto> PyBool False)"
  let ?m = "example_module ?hp example_lens"
  have r: "\<not> isl (configure_optimizers example_total_steps ?m)"
    by (simp add: configure_optimizers_def get_lr_scheduler_def example_module_def
      example_hparams_def example_total_steps_def and_then_def getattr_def read_slot_def
      arg_to_scheduler_item_def arg_to_scheduler_def ascii_def Let_def)
  then obtain opts scheds self' where
    c: "configure_optimizers example_total_steps ?m = Inr ((opts, scheds), self')"
    by (metis isl_def old.prod.exhaust sum.exhaust_sel)
  from configure_optimizers_kinds [OF c] obtain opt lr af g eps where
    "opts = [opt]" "bt_hparams ?m ''adafactor'' = Some af"
    "bt_hparams ?m ''learning_rate'' = Some lr"
    "\<not> truthy af \<longrightarrow> (\<exists>g eps. bt_hparams ?m ''adam_epsilon'' = Some eps \<and> opt = AdamW g lr eps)"
    by blast
  then have "\<exists>g. opts = [AdamW g (PyFloat (5 / 100000)) (PyFloat (1 / 100000000))]"
    by (auto simp: example_module_def example_hparams_def)
  moreover have "map optimizer_groups opts = [optimizer_grouped_parameters example_model (PyFloat (1 / 100))]"
    using configure_optimizers_Inr [OF c]
    by (auto simp: example_module_def example_hparams_def)
  ultimately have "opts = [AdamW (optimizer_grouped_parameters example_model (PyFloat (1 / 100)))
          (PyFloat (5 / 100000)) (PyFloat (1 / 100000000))]" by auto
  with c r show ?thesis by (simp add: example_configure)
qed

text \<open>
  C7 as stated fails: with the flag set, the optimizer is built without the configured
  epsilon, and a run with another epsilon returns the same optimizer and schedule.
\<close>

theorem configure_optimizers_epsilon_counterexample:
  "example_hparams 50 60 100 ''adafactor'' = Some (PyBool True) \<and>
   example_hparams 50 60 100 ''adam_epsilon'' = Some (PyFloat (1 / 100000000)) \<and>
   \<not> isl (configure_optimizers example_total_steps
      (example_module (example_hparams 50 60 100) example_lens)) \<and>
   map optimizer_eps (fst (fst (projr (configure_optimizers example_total_steps
      (example_module (example_hparams 50 60 100) example_lens))))) = [None] \<and>
   fst (projr (configure_optimizers example_total_steps
      (example_module ((example_hparams 50 60 100)(''adam_epsilon'' \<mapsto> PyFloat (1 / 1000)))
         example_lens))) =
   fst (projr (configure_optimizers example_total_steps
      (example_module (example_hparams 50 60 100) example_lens)))"
  by (simp add: configure_optimizers_def get_lr_scheduler_def example_module_def
      example_hparams_def example_total_steps_def and_then_def getattr_def read_slot_def
      arg_to_scheduler_item_def arg_to_scheduler_def ascii_def Let_def)

lemma example_resolve:
  "\<forall>p \<in> set extra_model_params. \<not> truthy (getattr_default hp p PyNone) \<Longrightarrow>
   hp ''output_dir'' = Some (PyStr (ascii ''out'')) \<Longrightarrow>
   hp ''cache_dir'' = Some (PyStr []) \<Longrightarrow>
   hp ''model_name_or_path'' = Some (PyStr (ascii ''google/flan-t5-small'')) \<Longrightarrow>
   resolve_components no_hub hp (Some Map.empty) (Some char_tokenizer) None
     (Some example_model) [] =
   Inr (ascii ''out'', PyStr (ascii ''google/flan-t5-small''), Map.empty, char_tokenizer,
        example_model)"
  by (simp add: resolve_components_def getattr_def and_then_def Path_def Let_def
      extra_model_params_def)

text \<open>
  C3. When the constructor reaches the target lengths (the components are resolved and
  the override check has passed), construction fails if and only if the training length
  exceeds the validation length or the test length, and it fails with the assertion on
  \<open>target_lens\<close>. The lengths 50, 40, 100 fail; the lengths 50, 60, 100 succeed.
\<close>

theorem target_lens_assertion:
  assumes rc: "resolve_components hub hparams config tokenizer num_labels model kw = Inr comps"
    and tr: "hparams ''max_target_length'' = Some (PyInt tr)"
    and va: "hparams ''val_max_target_length'' = Some (PyInt va)"
    and te: "hparams ''test_max_target_length'' = Some (PyInt te)"
  shows "(isl (BaseTransformer_init hub hparams config tokenizer num_labels model kw)
            \<longleftrightarrow> tr > va \<or> tr > te) \<and>
         (tr > va \<or> tr > te \<longrightarrow>
            BaseTransformer_init hub hparams config tokenizer num_labels model kw =
              Inl (AssertionError (TargetLens (PyInt tr) (PyInt va) (PyInt te))))"
proof -
  have c: "check_target_lens hparams =
             (if tr \<le> va \<and> tr \<le> te
              then Inr \<lparr>train = PyInt tr, val = PyInt va, test = PyInt te\<rparr>
              else Inl (AssertionError (TargetLens (PyInt tr) (PyInt va) (PyInt te))))"
    by (simp add: check_target_lens_def getattr_def and_then_def py_le_def tr va te Let_def)
  show ?thesis
    by (cases comps) (auto simp: BaseTransformer_init_def rc c and_then_def)
qed

theorem target_lens_assertion_witness:
  "example_init (example_hparams 50 40 100) Map.empty =
     Inl (AssertionError (TargetLens (PyInt 50) (PyInt 40) (PyInt 100))) \<and>
   example_init (example_hparams 50 60 100) Map.empty =
     Inr (example_module (example_hparams 50 60 100) example_lens)"
proof -
  have r: "resolve_components no_hub (example_hparams 50 v 100) (Some Map.empty)
             (Some char_tokenizer) None (Some example_model) [] =
           Inr (ascii ''out'', PyStr (ascii ''google/flan-t5-small''), Map.empty,
                char_tokenizer, example_model)" for v
    by (rule example_resolve)
       (simp_all add: example_hparams_def extra_model_params_def getattr_default_def)
  have h: "example_hparams 50 v 100 ''max_target_length'' = Some (PyInt 50)"
    "example_hparams 50 v 100 ''val_max_target_length'' = Some (PyInt v)"
    "example_hparams 50 v 100 ''test_max_target_length'' = Some (PyInt 100)" for v
    by (simp_all add: example_hparams_def)
  have a: "example_init (example_hparams 50 40 100) Map.empty =
     Inl (AssertionError (TargetLens (PyInt 50) (PyInt 40) (PyInt 100)))"
    using target_lens_assertion [OF r h, of 40] by (simp add: example_init_def)
  have "\<not> isl (example_init (example_hparams 50 60 100) Map.empty)"
    using target_lens_assertion [OF r h, of 60] by (simp add: example_init_def)
  then have b: "example_init (example_hparams 50 60 100) Map.empty =
     Inr (example_module (example_hparams 50 60 100) example_lens)"
    by (simp add: example_init_def BaseTransformer_init_def r and_then_def
        check_target_lens_def getattr_def h py_le_def Let_def example_module_def
        example_lens_def)
  from a b show ?thesis by simp
qed

text \<open>
  The loop over \<open>extra_model_params\<close> as a whole: it raises the assertion for the first
  name whose override is true and that the config lacks; otherwise the config receives
  the overrides that are true and keeps its other attributes.
\<close>

lemma apply_extra_model_params_spec:
  "apply_extra_model_params hparams config ps =
     (case filter (\<lambda>p. truthy (getattr_default hparams p PyNone) \<and> \<not> hasattr config p) ps of
        [] \<Rightarrow> Inr (\<lambda>q. if q \<in> set ps \<and> truthy (getattr_default hparams q PyNone)
                       then hparams q else config q)
      | p # _ \<Rightarrow> Inl (AssertionError (NoConfigAttribute p)))"
proof (induction ps arbitrary: config)
  case Nil
  then show ?case by simp
next
  case (Cons p ps)
  show ?case
  proof (cases "truthy (getattr_default hparams p PyNone)")
    case False
    then show ?thesis by (auto simp: Cons.IH split: list.splits intro!: ext)
  next
    case True
    then obtain v where v: "hparams p = Some v"
      by (auto simp: getattr_default_def split: option.splits)
    show ?thesis
    proof (cases "hasattr config p")
      case False
      with True show ?thesis by simp
    next
      case h: True
      have same: "hasattr (setattr config p v) q = hasattr config q" for q
        using h by (auto simp: hasattr_def setattr_def)
      have step: "apply_extra_model_params hparams config (p # ps) =
                  apply_extra_model_params hparams (setattr config p v) ps"
        using True h v by (simp add: getattr_def and_then_def)
      have f: "filter (\<lambda>q. truthy (getattr_default hparams q PyNone) \<and> \<not> hasattr config q)
                 (p # ps) =
               filter (\<lambda>q. truthy (getattr_default hparams q PyNone) \<and>
                        \<not> hasattr (setattr config p v) q) ps"
        using h by (simp add: same)
      have g: "(\<lambda>q. if q \<in> set ps \<and> truthy (getattr_default hparams q PyNone)
                    then hparams q else setattr config p v q) =
               (\<lambda>q. if q \<in> set (p # ps) \<and> truthy (getattr_default hparams q PyNone)
                    then hparams q else config q)"
        using True v by (auto simp: setattr_def intro!: ext)
      show ?thesis
        unfolding step f Cons.IH g ..
    qed
  qed
qed

text \<open>
  C5 at the override \<open>dropout = 0.0\<close>. The override is present in the hyperparameters
  and the config has no \<open>dropout\<close> attribute, yet construction succeeds: the loop tests
  the truth of the value, and 0.0 is false. The override 0.1 on the same config fails
  with the assertion. On a config that has the attribute, the override 0.0 is not
  applied: the config keeps its 0.1.
\<close>

theorem zero_override_not_checked:
  "example_init ((example_hparams 50 60 100)(''dropout'' \<mapsto> PyFloat 0)) Map.empty =
     Inr (example_module ((example_hparams 50 60 100)(''dropout'' \<mapsto> PyFloat 0)) example_lens) \<and>
   example_init ((example_hparams 50 60 100)(''dropout'' \<mapsto> PyFloat (1 / 10))) Map.empty =
     Inl (AssertionError (NoConfigAttribute ''dropout'')) \<and>
   example_init ((example_hparams 50 60 100)(''dropout'' \<mapsto> PyFloat 0))
       [''dropout'' \<mapsto> PyFloat (1 / 10)] =
     Inr ((example_module ((example_hparams 50 60 100)(''dropout'' \<mapsto> PyFloat 0)) example_lens)
            \<lparr>bt_config := [''dropout'' \<mapsto> PyFloat (1 / 10)]\<rparr>)"
  by (simp add: example_init_def BaseTransformer_init_def resolve_components_def
      check_target_lens_def getattr_def getattr_default_def hasattr_def setattr_def
      and_then_def Path_def py_le_def Let_def extra_model_params_def example_hparams_def
      example_module_def example_lens_def)

section \<open>Properties of generic_train\<close>

lemma dom_foldl_dests:
  "dom (foldl (\<lambda>ns a. ns(arg_dest a \<mapsto> h a)) m parser) = dom m \<union> arg_dest ` set parser"
  by (induction parser arbitrary: m) auto

lemma parse_args_dom:
  "parse_args parser given = Inr args \<Longrightarrow> dom args = arg_dest ` set parser"
proof -
  assume "parse_args parser given = Inr args"
  then have "args = foldl (\<lambda>ns a. ns(arg_dest a \<mapsto>
                         (case map_of (rev given) (arg_flag a) of
                            None \<Rightarrow> arg_default a | Some v \<Rightarrow> v)))
                  Map.empty parser"
    by (simp add: parse_args_def split: if_splits)
  then show ?thesis
    using dom_foldl_dests [of "\<lambda>a. case map_of (rev given) (arg_flag a) of
                            None \<Rightarrow> arg_default a | Some v \<Rightarrow> v" Map.empty parser]
    by simp
qed

lemma example_parser_dests:
  "map arg_dest (add_model_specific_args (add_generic_args [] r1) r2) =
     [''output_dir'', ''fp16'', ''fp16_opt_level'', ''tpu_cores'', ''gradient_clip_val'',
      ''do_train'', ''do_predict'', ''accumulate_grad_batches'', ''seed'', ''data_dir'',
      ''logger_name'', ''wb_name'', ''wb_project'', ''wb_entity'', ''id'',
      ''resume_from_checkpoint'', ''monitor'', ''full_test'', ''save_path_for_test'',
      ''val_check_interval'', ''num_sanity_val_steps'', ''debug_mode'',
      ''model_name_or_path'', ''config_name'', ''tokenizer_name'', ''cache_dir'',
      ''encoder_layerdrop'', ''decoder_layerdrop'', ''dropout'', ''attention_dropout'',
      ''learning_rate'', ''lr_scheduler'', ''weight_decay'', ''adam_epsilon'',
      ''warmup_steps'', ''num_workers'', ''max_epochs'', ''train_batch_size'',
      ''eval_batch_size'', ''adafactor'', ''save_path'', ''hf_checkpoint'',
      ''load_checkpoint'', ''data_path'', ''deepspeed_stage_3'', ''eval_beams'']"
  by (simp add: add_model_specific_args_def add_generic_args_def add_argument_def Let_def)

lemma parsed_attributes:
  assumes "parse_args (add_model_specific_args (add_generic_args [] r1) r2) given = Inr args"
  shows "args ''seed'' \<noteq> None" "args ''monitor'' \<noteq> None"
    "args ''val_metric'' = None" "args ''local'' = None"
proof -
  have d: "dom args = set (map arg_dest (add_model_specific_args (add_generic_args [] r1) r2))"
    using parse_args_dom [OF assms] by simp
  have "''seed'' \<in> dom args" "''monitor'' \<in> dom args"
    "''val_metric'' \<notin> dom args" "''local'' \<notin> dom args"
    unfolding d example_parser_dests by simp_all
  then show "args ''seed'' \<noteq> None" "args ''monitor'' \<noteq> None"
    "args ''val_metric'' = None" "args ''local'' = None"
    by auto
qed

text \<open>
  C10. A namespace parsed by the parser of \<open>add_generic_args\<close> and
  \<open>add_model_specific_args\<close> has \<open>monitor\<close> and has neither \<open>val_metric\<close> nor
  \<open>local\<close>. On it \<open>generic_train\<close> never returns a trainer, and when the output
  directory of the module can be created it fails with the AttributeError on
  \<open>val_metric\<close>, before the trainer is constructed.
\<close>

theorem generic_train_val_metric:
  assumes "parse_args (add_model_specific_args (add_generic_args [] r1) r2) given = Inr args"
  shows "args ''monitor'' \<noteq> None \<and> args ''val_metric'' = None \<and> args ''local'' = None \<and>
         isl (generic_train e model args logger extra_train_kwargs) \<and>
         ((\<exists>d. bt_hparams model ''output_dir'' = Some (PyStr d)) \<and> mkdir_error e = None \<longrightarrow>
            generic_train e model args logger extra_train_kwargs =
              Inl (AttributeError ''val_metric''))"
proof -
  note p = parsed_attributes [OF assms]
  obtain s where s: "args ''seed'' = Some s" using p(1) by auto
  have g: "generic_train e model args logger extra_train_kwargs =
        and_then (getattr (bt_hparams model) ''output_dir'') (\<lambda>od.
        and_then (Path od) (\<lambda>odir.
        and_then (mkdir e odir) (\<lambda>_. Inl (AttributeError ''val_metric''))))"
    by (simp add: generic_train_def getattr_def s p(3) and_then_def)
  have "isl (generic_train e model args logger extra_train_kwargs)"
    unfolding g by (auto simp: and_then_def split: sum.splits)
  moreover have "generic_train e model args logger extra_train_kwargs =
              Inl (AttributeError ''val_metric'')"
    if "bt_hparams model ''output_dir'' = Some (PyStr d)" "mkdir_error e = None" for d
    unfolding g using that by (simp add: and_then_def getattr_def Path_def mkdir_def)
  ultimately show ?thesis using p by blast
qed

theorem generic_train_val_metric_witness:
  "\<not> isl (parse_args example_parser example_command_line) \<and>
   projr (parse_args example_parser example_command_line) ''monitor'' \<noteq> None \<and>
   projr (parse_args example_parser example_command_line) ''val_metric'' = None \<and>
   bt_hparams (example_module (example_hparams 50 60 100) example_lens) ''output_dir''
     = Some (PyStr (ascii ''out'')) \<and>
   mkdir_error example_env = None \<and>
   generic_train example_env (example_module (example_hparams 50 60 100) example_lens)
     (projr (parse_args example_parser example_command_line)) (PyBool True) Map.empty
     = Inl (AttributeError ''val_metric'')"
proof -
  have flags: "set (map arg_flag example_parser) \<supseteq> {''--model_name_or_path'', ''--output_dir''}"
    by (simp add: example_parser_def add_model_specific_args_def add_generic_args_def
        add_argument_def Let_def)
  have req: "filter arg_required example_parser =
     [\<lparr>arg_flag = ''--model_name_or_path'', arg_dest = ''model_name_or_path'',
       arg_default = PyNone, arg_required = True\<rparr>]"
    by (simp add: example_parser_def add_model_specific_args_def add_generic_args_def
        add_argument_def Let_def)
  have "\<not> list_ex (\<lambda>a. arg_required a \<and>
           map_of (rev example_command_line) (arg_flag a) = None) example_parser"
  proof
    assume "list_ex (\<lambda>a. arg_required a \<and>
           map_of (rev example_command_line) (arg_flag a) = None) example_parser"
    then obtain a where "a \<in> set (filter arg_required example_parser)"
      "map_of (rev example_command_line) (arg_flag a) = None"
      by (auto simp: list_ex_iff)
    then show False unfolding req by (simp add: example_command_line_def)
  qed
  with flags have "\<not> isl (parse_args example_parser example_command_line)"
    by (simp add: parse_args_def example_command_line_def)
  then obtain args where a: "parse_args example_parser example_command_line = Inr args"
    by (cases "parse_args example_parser example_command_line") auto
  have o: "bt_hparams (example_module (example_hparams 50 60 100) example_lens) ''output_dir''
     = Some (PyStr (ascii ''out''))"
    by (simp add: example_module_def example_hparams_def)
  have e: "mkdir_error example_env = None" by (simp add: example_env_def)
  from generic_train_val_metric [OF a [unfolded example_parser_def],
      of example_env "example_module (example_hparams 50 60 100) example_lens"
         "PyBool True" Map.empty] o e a
  show ?thesis by auto
qed

end
